theory Spec2Isabelle
  imports Main "HOL-Library.AList"
begin

section \<open>JavaScript values that reach the plugin options\<close>

text \<open>
  A \<^verbatim>\<open>RegExp\<close> object: the pattern is kept abstract as its matcher
  (\<open>re_exec r s i = Some e\<close>: the pattern matches the string \<open>s\<close> from index \<open>i\<close> up to
  index \<open>e\<close>), together with the two flags that make \<^verbatim>\<open>RegExp.prototype.test\<close>
  depend on the object's \<^verbatim>\<open>lastIndex\<close>, and \<^verbatim>\<open>lastIndex\<close> itself.
\<close>

record regexp =
  re_exec :: "string \<Rightarrow> nat \<Rightarrow> nat option"
  re_global :: bool
  re_sticky :: bool
  lastIndex :: nat

definition re_stateful :: "regexp \<Rightarrow> bool" where
  "re_stateful r = (re_global r \<or> re_sticky r)"

text \<open>The start indices \<^verbatim>\<open>test\<close> tries, in order: a sticky pattern only
  \<^verbatim>\<open>lastIndex\<close>, any other every index from its start to the end of the string.\<close>

definition re_candidates :: "regexp \<Rightarrow> string \<Rightarrow> nat list" where
  "re_candidates r s =
     (let start = (if re_stateful r then lastIndex r else 0) in
      if re_sticky r then (if start \<le> length s then [start] else [])
      else [start..<Suc (length s)])"

fun first_match :: "(nat \<Rightarrow> nat option) \<Rightarrow> nat list \<Rightarrow> nat option" where
  "first_match m [] = None"
| "first_match m (i # is) = (case m i of Some e \<Rightarrow> Some e | None \<Rightarrow> first_match m is)"

text \<open>\<^verbatim>\<open>r.test(s)\<close>: the answer and the object afterwards. A global or sticky pattern
  stores the end of the match in \<^verbatim>\<open>lastIndex\<close>, and resets it to 0 on failure.\<close>

definition RegExp_test :: "regexp \<Rightarrow> string \<Rightarrow> bool \<times> regexp" where
  "RegExp_test r s =
     (case first_match (re_exec r s) (re_candidates r s) of
        None \<Rightarrow> (False, if re_stateful r then r\<lparr>lastIndex := 0\<rparr> else r)
      | Some e \<Rightarrow> (True, if re_stateful r then r\<lparr>lastIndex := e\<rparr> else r))"

datatype jsvalue =
    JSUndefined
  | JSNull
  | JSBoolean bool
  | JSNumber int
  | JSString string
  | JSRegExp regexp
  | JSArray "jsvalue list"
  | JSObject
  | JSFunction

fun typeof :: "jsvalue \<Rightarrow> string" where
  "typeof JSUndefined = ''undefined''"
| "typeof JSNull = ''object''"
| "typeof (JSBoolean b) = ''boolean''"
| "typeof (JSNumber n) = ''number''"
| "typeof (JSString s) = ''string''"
| "typeof (JSRegExp r) = ''object''"
| "typeof (JSArray vs) = ''object''"
| "typeof JSObject = ''object''"
| "typeof JSFunction = ''function''"

text \<open>What \<^verbatim>\<open>!v\<close> negates.\<close>

fun truthy :: "jsvalue \<Rightarrow> bool" where
  "truthy JSUndefined = False"
| "truthy JSNull = False"
| "truthy (JSBoolean b) = b"
| "truthy (JSNumber n) = (n \<noteq> 0)"
| "truthy (JSString s) = (s \<noteq> [])"
| "truthy (JSRegExp r) = True"
| "truthy (JSArray vs) = True"
| "truthy JSObject = True"
| "truthy JSFunction = True"

section \<open>Strings and paths\<close>

definition posix_sep :: char where
  "posix_sep = CHR ''/''"

definition win32_sep :: char where
  "win32_sep = CHR 0x5C"

text \<open>\<^verbatim>\<open>s.split(c)\<close> and \<^verbatim>\<open>parts.join(c)\<close> for a separator of one character.\<close>

fun split_on :: "char \<Rightarrow> string \<Rightarrow> string list" where
  "split_on c [] = [[]]"
| "split_on c (x # xs) =
     (if x = c then [] # split_on c xs
      else (case split_on c xs of [] \<Rightarrow> [[x]] | w # ws \<Rightarrow> (x # w) # ws))"

fun join_with :: "char \<Rightarrow> string list \<Rightarrow> string" where
  "join_with c [] = []"
| "join_with c [w] = w"
| "join_with c (w # ws) = w @ c # join_with c ws"

definition endsWith :: "string \<Rightarrow> string \<Rightarrow> bool" where
  "endsWith s suf = (length suf \<le> length s \<and> drop (length s - length suf) s = suf)"

definition isPng :: "string \<Rightarrow> bool" where
  "isPng filePath = endsWith filePath ''.png''"

section \<open>The path filters\<close>

datatype error =
    ExcludesNotRegExpOrArray string
  | ItemNotRegExp nat string
  | IncludesNotRegExpOrArray string
  | PackerFailure
  | WatcherNotInitialed
  | UpdateAssetNotExisting string

subsection \<open>plugin.js: \<^verbatim>\<open>#convert2Posix\<close> and \<^verbatim>\<open>#notExcludes\<close>\<close>

text \<open>\<open>sep\<close> is the platform's \<^verbatim>\<open>path.sep\<close>.\<close>

definition convert2Posix :: "char \<Rightarrow> string \<Rightarrow> string" where
  "convert2Posix sep v = (if v \<noteq> [] then join_with posix_sep (split_on sep v) else [])"

text \<open>The loop over an \<^verbatim>\<open>excludes\<close> array from index \<open>idx\<close> on: the answer (or the
  error thrown) and the elements afterwards. An element is checked only when the loop
  reaches it. Every element is taken to be an object of its own: the same
  \<^verbatim>\<open>RegExp\<close> is not listed twice.\<close>

fun excludes_loop :: "jsvalue list \<Rightarrow> nat \<Rightarrow> string \<Rightarrow> (error + bool) \<times> jsvalue list" where
  "excludes_loop [] idx posixPath = (Inr True, [])"
| "excludes_loop (it # its) idx posixPath =
     (case it of
        JSRegExp r \<Rightarrow>
          (case RegExp_test r posixPath of
             (True, r') \<Rightarrow> (Inr False, JSRegExp r' # its)
           | (False, r') \<Rightarrow>
               (case excludes_loop its (Suc idx) posixPath of
                  (res, its') \<Rightarrow> (res, JSRegExp r' # its')))
      | _ \<Rightarrow> (Inl (ItemNotRegExp idx (typeof it)), it # its))"

text \<open>\<^verbatim>\<open>#notExcludes(filePath)\<close> on the option \<^verbatim>\<open>excludes\<close>: the answer or the
  error, and the option afterwards.\<close>

definition notExcludes :: "char \<Rightarrow> jsvalue \<Rightarrow> string \<Rightarrow> (error + bool) \<times> jsvalue" where
  "notExcludes sep excludes filePath =
     (if \<not> truthy excludes then (Inr True, excludes)
      else (case excludes of
          JSRegExp r \<Rightarrow>
            (case RegExp_test r (convert2Posix sep filePath) of
               (m, r') \<Rightarrow> (Inr (\<not> m), JSRegExp r'))
        | JSArray its \<Rightarrow>
            (case excludes_loop its 0 (convert2Posix sep filePath) of
               (res, its') \<Rightarrow> (res, JSArray its'))
        | _ \<Rightarrow> (Inl (ExcludesNotRegExpOrArray (typeof excludes)), excludes)))"

subsection \<open>index.js: \<^verbatim>\<open>inWhiteList\<close>\<close>

text \<open>\<^verbatim>\<open>arr.includes(filePath)\<close> for a string \<^verbatim>\<open>filePath\<close>: some element is the
  same string.\<close>

definition Array_includes :: "jsvalue list \<Rightarrow> string \<Rightarrow> bool" where
  "Array_includes its filePath =
     list_ex (\<lambda>it. case it of JSString s \<Rightarrow> s = filePath | _ \<Rightarrow> False) its"

definition inWhiteList :: "jsvalue \<Rightarrow> string \<Rightarrow> (error + bool) \<times> jsvalue" where
  "inWhiteList incl filePath =
     (if \<not> truthy incl then (Inr True, incl)
      else (case incl of
          JSRegExp r \<Rightarrow>
            (case RegExp_test r filePath of (m, r') \<Rightarrow> (Inr (\<not> m), JSRegExp r'))
        | JSArray its \<Rightarrow> (Inr (\<not> Array_includes its filePath), incl)
        | _ \<Rightarrow> (Inl (IncludesNotRegExpOrArray (typeof incl)), incl)))"

text \<open>\<^verbatim>\<open>paths.filter(p => qualifies(p) && isPng(p))\<close>: the filter is called on every
  path in order, each call sees the option as the call before left it, and the first
  error ends the pass.\<close>

fun filter_images ::
  "(jsvalue \<Rightarrow> string \<Rightarrow> (error + bool) \<times> jsvalue) \<Rightarrow> jsvalue \<Rightarrow> string list
     \<Rightarrow> (error + string list) \<times> jsvalue" where
  "filter_images q rules [] = (Inr [], rules)"
| "filter_images q rules (p # ps) =
     (case q rules p of
        (Inl e, rules') \<Rightarrow> (Inl e, rules')
      | (Inr ok, rules') \<Rightarrow>
          (case filter_images q rules' ps of
             (Inl e, rules'') \<Rightarrow> (Inl e, rules'')
           | (Inr keep, rules'') \<Rightarrow> (Inr (if ok \<and> isPng p then p # keep else keep), rules'')))"

section \<open>The packer's result and the coordinate metadata\<close>

type_synonym buffer = "nat list"

record rect =
  rect_x :: int
  rect_y :: int
  rect_width :: int
  rect_height :: int

record properties =
  prop_width :: int
  prop_height :: int

text \<open>The result Spritesmith hands to its callback. \<open>coordinates\<close> is a JavaScript
  object, kept as the list of its entries in key order.\<close>

record pack_result =
  coordinates :: "(string \<times> rect) list"
  properties :: properties
  image :: buffer

text \<open>What the packer is given: file paths (plugin.js) or Vinyl files with a path and
  contents (index.js).\<close>

datatype src = SrcPath string | SrcVinyl string buffer

text \<open>The plain objects the plugins build and serialise with \<^verbatim>\<open>JSON.stringify\<close>.
  An object is the list of its entries in insertion order; \<^verbatim>\<open>obj[k] = v\<close> is
  \<^const>\<open>AList.update\<close>: an existing key keeps its place and takes the new value, a
  new key goes last.\<close>

datatype json = JNum int | JObj "(string \<times> json) list"

text \<open>(JavaScript lists keys that are array indices before all others; the keys of the
  metadata are never such keys.)\<close>

subsection \<open>Node's \<^verbatim>\<open>path\<close> module\<close>

text \<open>
  Both plugins call \<^verbatim>\<open>path.sep\<close>, \<^verbatim>\<open>path.dirname\<close> and
  \<^verbatim>\<open>path.basename\<close> of the platform they run on (\<^verbatim>\<open>path.posix\<close> or
  \<^verbatim>\<open>path.win32\<close>). The platform's module is a parameter of the model.
\<close>

record path_module =
  path_sep :: char
  path_dirname :: "string \<Rightarrow> string"
  path_basename :: "string \<Rightarrow> string"

text \<open>\<^verbatim>\<open>path.posix.basename\<close> and \<^verbatim>\<open>path.posix.dirname\<close>, and with them
  the module of a POSIX platform.\<close>

definition posix_basename :: "string \<Rightarrow> string" where
  "posix_basename p =
     rev (takeWhile (\<lambda>c. c \<noteq> posix_sep) (dropWhile (\<lambda>c. c = posix_sep) (rev p)))"

definition posix_dirname :: "string \<Rightarrow> string" where
  "posix_dirname p =
     (case p of
        [] \<Rightarrow> ''.''
      | c # cs \<Rightarrow>
          (case dropWhile (\<lambda>a. a \<noteq> posix_sep) (dropWhile (\<lambda>a. a = posix_sep) (rev cs)) of
             [] \<Rightarrow> (if c = posix_sep then ''/'' else ''.'')
           | _ # r \<Rightarrow> (if c = posix_sep \<and> r = [] then ''//'' else c # rev r)))"

definition posix_path :: path_module where
  "posix_path =
     \<lparr>path_sep = posix_sep, path_dirname = posix_dirname, path_basename = posix_basename\<rparr>"

text \<open>\<^verbatim>\<open>parts.pop()\<close> inside a template literal.\<close>

definition Array_pop :: "string list \<Rightarrow> string" where
  "Array_pop parts = (case rev parts of [] \<Rightarrow> ''undefined'' | w # _ \<Rightarrow> w)"

subsection \<open>plugin.js: the manifest of \<^verbatim>\<open>#generateSpriteSheet\<close>\<close>

text \<open>\<^verbatim>\<open>`${path.dirname(filePath).split(path.sep).pop()}_${path.basename(filePath)}`\<close>\<close>

definition fileName :: "path_module \<Rightarrow> string \<Rightarrow> string" where
  "fileName pm filePath =
     Array_pop (split_on (path_sep pm) (path_dirname pm filePath))
       @ ''_'' @ path_basename pm filePath"

definition frame_json :: "rect \<Rightarrow> json" where
  "frame_json r =
     JObj [(''x'', JNum (rect_x r)), (''y'', JNum (rect_y r)),
           (''w'', JNum (rect_width r)), (''h'', JNum (rect_height r))]"

text \<open>\<^verbatim>\<open>Object.keys(coordinates).forEach(filePath => metadata[fileName] = {...})\<close>
  visits every entry of \<open>coordinates\<close> once, in key order.\<close>

definition manifest_metadata :: "path_module \<Rightarrow> (string \<times> rect) list \<Rightarrow> json" where
  "manifest_metadata pm coords =
     JObj (foldl (\<lambda>metadata (filePath, r). AList.update (fileName pm filePath) (frame_json r) metadata)
             [] coords)"

subsection \<open>index.js: \<^verbatim>\<open>coordinateMeta\<close>\<close>

text \<open>A placement as the packer returns it; index.js stores the object itself.\<close>

definition rect_json :: "rect \<Rightarrow> json" where
  "rect_json r =
     JObj [(''x'', JNum (rect_x r)), (''y'', JNum (rect_y r)),
           (''width'', JNum (rect_width r)), (''height'', JNum (rect_height r))]"

definition coordinateMeta_of :: "path_module \<Rightarrow> pack_result \<Rightarrow> json" where
  "coordinateMeta_of pm result =
     JObj [(''width'', JNum (prop_width (properties result))),
           (''height'', JNum (prop_height (properties result))),
           (''frames'',
              JObj (foldl (\<lambda>frames (relativePath, r).
                             AList.update (path_basename pm relativePath) (rect_json r) frames)
                      [] (coordinates result)))]"

section \<open>The metadata differ (index.js)\<close>

text \<open>
  Modelled from the spec: \<^verbatim>\<open>utils/lodashIsEqual\<close> and \<^verbatim>\<open>utils/lodashCloneDeep\<close>
  are not among the source files. The spec describes the first as deep structural equality
  over the full metadata tree, order-independent for the mappings, and the second as a
  deep, independent copy. On immutable values a deep copy is the value rebuilt.
\<close>

fun isEqual :: "json \<Rightarrow> json \<Rightarrow> bool" where
  "isEqual (JNum a) (JNum b) = (a = b)"
| "isEqual (JObj xs) (JObj ys) =
     (length xs = length ys \<and>
      list_all (\<lambda>kv. case map_of ys (fst kv) of None \<Rightarrow> False | Some w \<Rightarrow> isEqual (snd kv) w) xs)"
| "isEqual (JNum a) (JObj ys) = False"
| "isEqual (JObj xs) (JNum b) = False"

fun cloneDeep :: "json \<Rightarrow> json" where
  "cloneDeep (JNum a) = JNum a"
| "cloneDeep (JObj xs) = JObj (map (\<lambda>kv. (fst kv, cloneDeep (snd kv))) xs)"

text \<open>\<^verbatim>\<open>isPrevMetadata(newSource)\<close> on the field \<^verbatim>\<open>_coordinateMeta\<close> (\<open>None\<close> is
  the initial \<^verbatim>\<open>null\<close>, which equals no object): the answer and the field afterwards.\<close>

definition isPrevMetadata :: "json option \<Rightarrow> json \<Rightarrow> bool \<times> json option" where
  "isPrevMetadata coordinateMeta newSource =
     (let equal = (case coordinateMeta of None \<Rightarrow> False | Some prev \<Rightarrow> isEqual prev newSource)
      in (equal, if \<not> equal then Some (cloneDeep newSource) else coordinateMeta))"

section \<open>Effects\<close>

text \<open>The two output files of plugin.js.\<close>

datatype outfile = ManifestFile | SpriteFile

text \<open>
  What a handler does to the outside, in order: the packer is invoked, a write of the
  serialised metadata or of the sheet image is issued (\<open>WriteCoordinate\<close> is the
  synchronous \<^verbatim>\<open>writeFileSync\<close> of index.js; \<open>WriteManifest\<close> and
  \<open>WriteSprite\<close> start the asynchronous writes of plugin.js, each of which later ends with
  \<open>WriteDone\<close> and whether it succeeded), \<^verbatim>\<open>#spriteProcess\<close> is entered, the host's
  callback is called. \<^verbatim>\<open>JSON.stringify\<close> is not modelled: a write carries the value
  it serialises.
\<close>

datatype event =
    PackerRun "src list"
  | WriteCoordinate json
  | WriteManifest json
  | WriteSprite buffer
  | WriteDone outfile bool
  | SpriteProcess
  | Callback

text \<open>A handler's run: the error it threw (if any), the state it left, its effects.\<close>

record 's run =
  thrown :: "error option"
  state_after :: 's
  trace :: "event list"

section \<open>index.js: the \<^verbatim>\<open>processAssets\<close> handler\<close>

text \<open>The host's asset set, a JavaScript object: its entries in key order.\<close>

type_synonym assets = "(string \<times> buffer) list"

record sprite_plugin =
  this_includes :: jsvalue
  this_coordinateMeta :: "json option"

text \<open>webpack's \<^verbatim>\<open>compilation.updateAsset\<close> throws for a name that is not an asset;
  \<^verbatim>\<open>compilation.deleteAsset\<close> removes the entry.\<close>

definition updateAsset :: "string \<Rightarrow> buffer \<Rightarrow> assets \<Rightarrow> error + assets" where
  "updateAsset file newSource assets =
     (if file \<in> set (map fst assets) then Inr (AList.update file newSource assets)
      else Inl (UpdateAssetNotExisting file))"

definition deleteAsset :: "string \<Rightarrow> assets \<Rightarrow> assets" where
  "deleteAsset file assets = AList.delete file assets"

text \<open>\<^verbatim>\<open>assets[assetPath].source()\<close>, for a key of \<open>assets\<close>.\<close>

definition source_of :: "assets \<Rightarrow> string \<Rightarrow> buffer" where
  "source_of assets assetPath = (case map_of assets assetPath of Some s \<Rightarrow> s | None \<Rightarrow> [])"

text \<open>The callback given to \<^verbatim>\<open>createSpriteSheet\<close>, for
  \<^verbatim>\<open>imagesPath = first # others\<close>.\<close>

definition sprite_created ::
  "path_module \<Rightarrow> sprite_plugin \<Rightarrow> assets \<Rightarrow> string \<Rightarrow> string list \<Rightarrow> pack_result
     \<Rightarrow> (sprite_plugin \<times> assets) run" where
  "sprite_created pm self assets first others result =
     (case updateAsset first (image result) assets of
        Inl e \<Rightarrow> \<lparr>thrown = Some e, state_after = (self, assets), trace = []\<rparr>
      | Inr assets1 \<Rightarrow>
          (let assets2 = foldl (\<lambda>a imagePath. deleteAsset imagePath a) assets1 others;
               coordinateMeta = coordinateMeta_of pm result
           in case isPrevMetadata (this_coordinateMeta self) coordinateMeta of
                (equal, meta') \<Rightarrow>
                  \<lparr>thrown = None,
                   state_after = (self\<lparr>this_coordinateMeta := meta'\<rparr>, assets2),
                   trace = (if \<not> equal then [WriteCoordinate coordinateMeta] else []) @ [Callback]\<rparr>))"

text \<open>\<^verbatim>\<open>imagesData\<close>: one Vinyl file per qualifying asset; \<open>vinyl_path\<close> is
  \<^verbatim>\<open>path.join(this._outputDir, assetPath)\<close>.\<close>

definition images_data :: "(string \<Rightarrow> string) \<Rightarrow> assets \<Rightarrow> string list \<Rightarrow> src list" where
  "images_data vinyl_path assets imagesPath =
     map (\<lambda>assetPath. SrcVinyl (vinyl_path assetPath) (source_of assets assetPath)) imagesPath"

text \<open>The handler. \<open>packer\<close> is Spritesmith (\<open>Inl\<close>: it reported an error, which the
  wrapper rethrows).\<close>

definition processAssets ::
  "path_module \<Rightarrow> (src list \<Rightarrow> error + pack_result) \<Rightarrow> (string \<Rightarrow> string) \<Rightarrow> sprite_plugin \<Rightarrow> assets
     \<Rightarrow> (sprite_plugin \<times> assets) run" where
  "processAssets pm packer vinyl_path self assets =
     (case filter_images inWhiteList (this_includes self) (map fst assets) of
        (Inl e, incl') \<Rightarrow>
          \<lparr>thrown = Some e, state_after = (self\<lparr>this_includes := incl'\<rparr>, assets), trace = []\<rparr>
      | (Inr imagesPath, incl') \<Rightarrow>
          (let self1 = self\<lparr>this_includes := incl'\<rparr>;
               imagesData = images_data vinyl_path assets imagesPath
           in case imagesPath of
                [] \<Rightarrow> \<lparr>thrown = None, state_after = (self1, assets), trace = [Callback]\<rparr>
              | first # others \<Rightarrow>
                  (case packer imagesData of
                     Inl err \<Rightarrow>
                       \<lparr>thrown = Some err, state_after = (self1, assets),
                        trace = [PackerRun imagesData]\<rparr>
                   | Inr result \<Rightarrow>
                       (let r = sprite_created pm self1 assets first others result
                        in r\<lparr>trace := PackerRun imagesData # trace r\<rparr>))))"

section \<open>plugin.js\<close>

text \<open>
  \<^verbatim>\<open>Promise.all([w1, w2]).finally(callback)\<close> against the writes as they end:
  the combined promise rejects with the first write that fails and fulfils once every
  write has succeeded; \<^verbatim>\<open>finally\<close> calls \<open>callback\<close> when it settles. \<open>settled\<close>:
  it has; \<open>remaining\<close>: the writes still awaited.
\<close>

fun settle_all :: "bool \<Rightarrow> nat \<Rightarrow> (outfile \<times> bool) list \<Rightarrow> event list" where
  "settle_all settled remaining [] = []"
| "settle_all settled remaining ((f, ok) # rest) =
     WriteDone f ok #
       (if settled then settle_all True remaining rest
        else if \<not> ok then Callback # settle_all True remaining rest
        else if remaining = 1 then Callback # settle_all True 0 rest
        else settle_all False (remaining - 1) rest)"

text \<open>\<^verbatim>\<open>#generateSpriteSheet(sources, callback)\<close>. \<open>callback\<close>: one was passed.
  \<open>completions\<close>: the order in which the two writes end, and how. Here and in the
  handlers below \<open>pm\<close> is the \<^verbatim>\<open>path\<close> module of the platform, whose
  \<^verbatim>\<open>path.sep\<close> is also the separator \<^verbatim>\<open>#convert2Posix\<close> splits at.\<close>

definition generateSpriteSheet ::
  "path_module \<Rightarrow> (src list \<Rightarrow> error + pack_result) \<Rightarrow> string list \<Rightarrow> bool \<Rightarrow> (outfile \<times> bool) list
     \<Rightarrow> error option \<times> event list" where
  "generateSpriteSheet pm packer sources callback completions =
     (case packer (map SrcPath sources) of
        Inl err \<Rightarrow> (Some err, [PackerRun (map SrcPath sources)])
      | Inr result \<Rightarrow>
          (None,
           [PackerRun (map SrcPath sources),
            WriteManifest (manifest_metadata pm (coordinates result)),
            WriteSprite (image result)]
           @ (if callback then settle_all False 2 completions
              else map (\<lambda>(f, ok). WriteDone f ok) completions)))"

text \<open>The \<^verbatim>\<open>beforeRun\<close> handler of production mode. \<open>scanned\<close>: what
  \<^verbatim>\<open>globSync\<close> returned; \<open>join_cwd\<close>: \<^verbatim>\<open>path.join(this.#cwd, v)\<close>.\<close>

definition beforeRun ::
  "path_module \<Rightarrow> (src list \<Rightarrow> error + pack_result) \<Rightarrow> (string \<Rightarrow> string) \<Rightarrow> jsvalue \<Rightarrow> string list
     \<Rightarrow> (outfile \<times> bool) list \<Rightarrow> jsvalue run" where
  "beforeRun pm packer join_cwd excludes scanned completions =
     (case filter_images (notExcludes (path_sep pm)) excludes (map join_cwd scanned) of
        (Inl e, excludes') \<Rightarrow> \<lparr>thrown = Some e, state_after = excludes', trace = []\<rparr>
      | (Inr allSourceImages, excludes') \<Rightarrow>
          (if length allSourceImages > 0
           then (case generateSpriteSheet pm packer allSourceImages True completions of
                   (t, evs) \<Rightarrow> \<lparr>thrown = t, state_after = excludes', trace = evs\<rparr>)
           else \<lparr>thrown = None, state_after = excludes', trace = []\<rparr>))"

text \<open>\<^verbatim>\<open>#spriteProcess(watcher)\<close>. \<open>watcher\<close>: \<open>None\<close> when there is none, else what
  \<^verbatim>\<open>watcher.watched()\<close> returns, the files by folder.\<close>

definition spriteProcess ::
  "path_module \<Rightarrow> (src list \<Rightarrow> error + pack_result) \<Rightarrow> jsvalue \<Rightarrow> (string \<times> string list) list option
     \<Rightarrow> (outfile \<times> bool) list \<Rightarrow> jsvalue run" where
  "spriteProcess pm packer excludes watcher completions =
     (case watcher of
        None \<Rightarrow> \<lparr>thrown = Some WatcherNotInitialed, state_after = excludes, trace = [SpriteProcess]\<rparr>
      | Some sourceImagesByFolder \<Rightarrow>
          (case filter_images (notExcludes (path_sep pm)) excludes (concat (map snd sourceImagesByFolder)) of
             (Inl e, excludes') \<Rightarrow>
               \<lparr>thrown = Some e, state_after = excludes', trace = [SpriteProcess]\<rparr>
           | (Inr allSourceImages, excludes') \<Rightarrow>
               (if length allSourceImages > 0
                then (case generateSpriteSheet pm packer allSourceImages False completions of
                        (t, evs) \<Rightarrow>
                          \<lparr>thrown = t, state_after = excludes', trace = SpriteProcess # evs\<rparr>)
                else \<lparr>thrown = None, state_after = excludes', trace = [SpriteProcess]\<rparr>)))"

text \<open>\<^verbatim>\<open>#pathEqual\<close>; \<open>relative\<close> is Node's \<^verbatim>\<open>path.relative\<close>.\<close>

definition pathEqual :: "(string \<Rightarrow> string \<Rightarrow> string) \<Rightarrow> string \<Rightarrow> string \<Rightarrow> bool" where
  "pathEqual relative path1 path2 = (relative path1 path2 = [])"

record watch_plugin =
  this_excludes :: jsvalue
  spriteImagePath :: string
  manifestPath :: string

text \<open>The handler of the watcher's \<^verbatim>\<open>"all"\<close> event.\<close>

definition on_all ::
  "path_module \<Rightarrow> (src list \<Rightarrow> error + pack_result) \<Rightarrow> (string \<Rightarrow> string \<Rightarrow> string) \<Rightarrow> watch_plugin
     \<Rightarrow> (string \<times> string list) list option \<Rightarrow> (outfile \<times> bool) list \<Rightarrow> string \<Rightarrow> string
     \<Rightarrow> jsvalue run" where
  "on_all pm packer relative self watcher completions event filePath =
     (if event \<noteq> ''renamed'' then
        (case notExcludes (path_sep pm) (this_excludes self) filePath of
           (Inl e, excludes') \<Rightarrow> \<lparr>thrown = Some e, state_after = excludes', trace = []\<rparr>
         | (Inr ok, excludes') \<Rightarrow>
             (if ok \<and> \<not> pathEqual relative filePath (spriteImagePath self)
                 \<and> \<not> pathEqual relative filePath (manifestPath self) \<and> isPng filePath
              then spriteProcess pm packer excludes' watcher completions
              else \<lparr>thrown = None, state_after = excludes', trace = []\<rparr>))
      else \<lparr>thrown = None, state_after = this_excludes self, trace = []\<rparr>)"

section \<open>Notions used to state the properties\<close>

text \<open>The path \<open>p\<close> with every \<^verbatim>\<open>/\<close> written as the separator \<open>sep\<close>.\<close>

definition with_sep :: "char \<Rightarrow> string \<Rightarrow> string" where
  "with_sep sep p = map (\<lambda>c. if c = posix_sep then sep else c) p"

text \<open>The matcher of a pattern made of literal characters only, such as
  \<^verbatim>\<open>/\.png/\<close>, and that pattern as a \<^verbatim>\<open>RegExp\<close> without flags.\<close>

definition lit_exec :: "string \<Rightarrow> string \<Rightarrow> nat \<Rightarrow> nat option" where
  "lit_exec pat s i =
     (if take (length pat) (drop i s) = pat then Some (i + length pat) else None)"

definition re_lit :: "string \<Rightarrow> regexp" where
  "re_lit pat = \<lparr>re_exec = lit_exec pat, re_global = False, re_sticky = False, lastIndex = 0\<rparr>"

definition is_RegExp :: "jsvalue \<Rightarrow> bool" where
  "is_RegExp v = (case v of JSRegExp r \<Rightarrow> True | _ \<Rightarrow> False)"

text \<open>The element is a pattern whose \<^verbatim>\<open>test\<close> answers true on \<open>s\<close>.\<close>

definition test_hit :: "string \<Rightarrow> jsvalue \<Rightarrow> bool" where
  "test_hit s v = (case v of JSRegExp r \<Rightarrow> fst (RegExp_test r s) | _ \<Rightarrow> False)"

text \<open>No pattern of the rules carries the global or the sticky flag.\<close>

fun flagless :: "jsvalue \<Rightarrow> bool" where
  "flagless (JSRegExp r) = (\<not> re_stateful r)"
| "flagless (JSArray its) =
     list_all (\<lambda>it. case it of JSRegExp r \<Rightarrow> \<not> re_stateful r | _ \<Rightarrow> True) its"
| "flagless v = True"

text \<open>A value as JavaScript objects are: no key twice in one object.\<close>

fun wf_json :: "json \<Rightarrow> bool" where
  "wf_json (JNum a) = True"
| "wf_json (JObj xs) = (distinct (map fst xs) \<and> list_all (\<lambda>kv. wf_json (snd kv)) xs)"

text \<open>The pack attempt of \<^verbatim>\<open>processAssets\<close> on these assets has the non-empty list
  \<open>imagesPath\<close> of qualifying images and the packer answers it with \<open>result\<close>.\<close>

definition packs ::
  "(src list \<Rightarrow> error + pack_result) \<Rightarrow> (string \<Rightarrow> string) \<Rightarrow> sprite_plugin \<Rightarrow> assets
     \<Rightarrow> string list \<Rightarrow> pack_result \<Rightarrow> bool" where
  "packs packer vinyl_path self assets imagesPath result =
     (imagesPath \<noteq> []
      \<and> fst (filter_images inWhiteList (this_includes self) (map fst assets)) = Inr imagesPath
      \<and> packer (images_data vinyl_path assets imagesPath) = Inr result)"

text \<open>The metadata values a run wrote with \<^verbatim>\<open>writeFileSync\<close>, in order.\<close>

fun coordinate_writes :: "event list \<Rightarrow> json list" where
  "coordinate_writes [] = []"
| "coordinate_writes (WriteCoordinate m # evs) = m # coordinate_writes evs"
| "coordinate_writes (ev # evs) = coordinate_writes evs"

fun obj_entries :: "json \<Rightarrow> (string \<times> json) list" where
  "obj_entries (JObj xs) = xs"
| "obj_entries (JNum a) = []"

subsection \<open>The scenarios of the specification, as data\<close>

definition scenario1_result :: pack_result where
  "scenario1_result =
     \<lparr>coordinates =
        [(''icons/a.png'', \<lparr>rect_x = 0, rect_y = 0, rect_width = 10, rect_height = 10\<rparr>),
         (''icons/b.png'', \<lparr>rect_x = 10, rect_y = 0, rect_width = 8, rect_height = 8\<rparr>)],
      properties = \<lparr>prop_width = 18, prop_height = 10\<rparr>,
      image = [137, 80, 78, 71]\<rparr>"

definition scenario2_assets :: assets where
  "scenario2_assets = [(''x.png'', [1]), (''main.js'', [4]), (''y.png'', [2]), (''z.png'', [3])]"

definition fresh_plugin :: sprite_plugin where
  "fresh_plugin = \<lparr>this_includes = JSUndefined, this_coordinateMeta = None\<rparr>"

definition watch_plugin1 :: watch_plugin where
  "watch_plugin1 =
     \<lparr>this_excludes = JSUndefined, spriteImagePath = ''/out/sprite.png'',
      manifestPath = ''/out/manifest.json''\<rparr>"

text \<open>A stand-in for \<^verbatim>\<open>path.relative\<close> on paths that are already resolved.\<close>

definition relative_resolved :: "string \<Rightarrow> string \<Rightarrow> string" where
  "relative_resolved from to = (if from = to then [] else to)"

section \<open>Properties of the path filters\<close>

lemma split_on_nonempty: "split_on c s \<noteq> []"
  by (induction s) (auto split: list.splits)

lemma join_split_map:
  "join_with posix_sep (split_on sep v) = map (\<lambda>c. if c = sep then posix_sep else c) v"
proof (induction v)
  case Nil
  show ?case by simp
next
  case (Cons x xs)
  obtain w ws where sp: "split_on sep xs = w # ws"
    using split_on_nonempty [of sep xs] by (cases "split_on sep xs") auto
  show ?case using Cons sp by (cases ws) auto
qed

lemma convert2Posix_map:
  "convert2Posix sep v = map (\<lambda>c. if c = sep then posix_sep else c) v"
  by (simp add: convert2Posix_def join_split_map)

lemma convert2Posix_with_sep: "convert2Posix sep (with_sep sep p) = convert2Posix sep p"
  by (simp add: convert2Posix_map with_sep_def)

lemmas eval_test =
  RegExp_test_def re_candidates_def re_stateful_def lit_exec_def re_lit_def
  posix_sep_def win32_sep_def upt_rec

subsection \<open>Separators\<close>

text \<open>
  C5 as stated fails for the filter of index.js: \<^verbatim>\<open>inWhiteList\<close> hands the path to
  the pattern as it is. With \<^verbatim>\<open>includes = /a\/b/\<close> the asset \<^verbatim>\<open>a/b/c.png\<close> is
  rejected, and the same path written with backslashes qualifies.
\<close>

theorem inWhiteList_separator_dependent:
  "fst (inWhiteList (JSRegExp (re_lit ''a/b'')) ''a/b/c.png'') = Inr False
   \<and> fst (inWhiteList (JSRegExp (re_lit ''a/b'')) (with_sep win32_sep ''a/b/c.png'')) = Inr True"
  by (simp add: inWhiteList_def with_sep_def eval_test)

text \<open>
  C5 (amended): for every value of \<^verbatim>\<open>excludes\<close> and every separator \<open>sep\<close> of the
  platform (the backslash of Windows in particular), \<^verbatim>\<open>#notExcludes\<close> of plugin.js
  gives the same answer, and leaves the same state, on a path written with \<^verbatim>\<open>/\<close>
  and on that path written with \<open>sep\<close>: \<^verbatim>\<open>#convert2Posix\<close> maps both to one
  string before any pattern sees it.
\<close>

theorem notExcludes_separator_independent:
  "notExcludes sep excludes (with_sep sep p) = notExcludes sep excludes p"
  unfolding notExcludes_def convert2Posix_with_sep ..

subsection \<open>Determinism\<close>

lemma RegExp_test_flagless: "\<not> re_stateful r \<Longrightarrow> snd (RegExp_test r s) = r"
  by (simp add: RegExp_test_def split: option.splits)

lemma excludes_loop_flagless:
  "list_all (\<lambda>it. case it of JSRegExp r \<Rightarrow> \<not> re_stateful r | _ \<Rightarrow> True) its \<Longrightarrow>
   snd (excludes_loop its idx s) = its"
proof (induction its arbitrary: idx)
  case Nil
  show ?case by simp
next
  case (Cons it its)
  show ?case
  proof (cases it)
    case (JSRegExp r)
    with Cons.prems have fl: "\<not> re_stateful r" by simp
    obtain m r' where t: "RegExp_test r s = (m, r')" by (cases "RegExp_test r s")
    with RegExp_test_flagless [OF fl, of s] have "r' = r" by simp
    moreover from Cons.prems have "snd (excludes_loop its (Suc idx) s) = its"
      by (intro Cons.IH) simp
    ultimately show ?thesis using JSRegExp t
      by (cases m) (auto split: prod.splits)
  qed simp_all
qed

lemma notExcludes_flagless: "flagless rules \<Longrightarrow> snd (notExcludes sep rules p) = rules"
  by (cases rules)
    (auto simp: notExcludes_def RegExp_test_flagless excludes_loop_flagless
      split: prod.splits dest: arg_cong [where f = snd])

lemma inWhiteList_flagless: "flagless rules \<Longrightarrow> snd (inWhiteList rules p) = rules"
  by (cases rules)
    (auto simp: inWhiteList_def RegExp_test_flagless split: prod.splits
      dest: arg_cong [where f = snd])

text \<open>
  C9 as stated fails for a pattern with the global flag, which is a valid pattern:
  \<^verbatim>\<open>test\<close> leaves the end of its match in \<^verbatim>\<open>lastIndex\<close> and the next call
  starts there. With \<^verbatim>\<open>excludes = /\.png/g\<close> the first evaluation on
  \<^verbatim>\<open>a.png\<close> answers false and the second, on the same path and the same option,
  answers true.
\<close>

theorem notExcludes_global_flag_not_deterministic:
  "fst (notExcludes posix_sep (JSRegExp ((re_lit ''.png'')\<lparr>re_global := True\<rparr>)) ''a.png'')
     = Inr False
   \<and> fst (notExcludes posix_sep
            (snd (notExcludes posix_sep (JSRegExp ((re_lit ''.png'')\<lparr>re_global := True\<rparr>)) ''a.png''))
            ''a.png'')
     = Inr True"
  by (simp add: notExcludes_def convert2Posix_map eval_test)

text \<open>
  C9 (amended): for every value of the rules in which no pattern carries the global or the
  sticky flag (absent and malformed rules included), an evaluation of
  \<^verbatim>\<open>#notExcludes\<close> or of \<^verbatim>\<open>inWhiteList\<close> leaves the rules as they were, so a
  second evaluation on the same path gives the same answer (or the same error) as the
  first.
\<close>

theorem filters_deterministic_without_flags:
  assumes "flagless rules"
  shows "snd (notExcludes sep rules p) = rules
    \<and> notExcludes sep (snd (notExcludes sep rules p)) p = notExcludes sep rules p
    \<and> snd (inWhiteList rules p) = rules
    \<and> inWhiteList (snd (inWhiteList rules p)) p = inWhiteList rules p"
  using assms by (simp add: notExcludes_flagless inWhiteList_flagless)

theorem filters_deterministic_without_flags_witness:
  "flagless (JSArray [JSRegExp (re_lit ''tmp''), JSRegExp (re_lit ''.png'')])
   \<and> notExcludes posix_sep (JSArray [JSRegExp (re_lit ''tmp''), JSRegExp (re_lit ''.png'')]) ''a.png''
       = (Inr False, JSArray [JSRegExp (re_lit ''tmp''), JSRegExp (re_lit ''.png'')])
   \<and> notExcludes posix_sep
        (snd (notExcludes posix_sep
               (JSArray [JSRegExp (re_lit ''tmp''), JSRegExp (re_lit ''.png'')]) ''a.png''))
        ''a.png''
       = (Inr False, JSArray [JSRegExp (re_lit ''tmp''), JSRegExp (re_lit ''.png'')])"
proof -
  have fl: "flagless (JSArray [JSRegExp (re_lit ''tmp''), JSRegExp (re_lit ''.png'')])"
    by (simp add: re_lit_def re_stateful_def)
  have ev: "notExcludes posix_sep
              (JSArray [JSRegExp (re_lit ''tmp''), JSRegExp (re_lit ''.png'')]) ''a.png''
            = (Inr False, JSArray [JSRegExp (re_lit ''tmp''), JSRegExp (re_lit ''.png'')])"
    by (simp add: notExcludes_def convert2Posix_map eval_test)
  show ?thesis
    using filters_deterministic_without_flags [OF fl, of posix_sep "''a.png''"] fl ev
    by simp
qed

subsection \<open>Rules given as a list\<close>

lemma excludes_loop_item_error:
  "list_all is_RegExp pre \<Longrightarrow> \<not> list_ex (test_hit s) pre \<Longrightarrow> \<not> is_RegExp bad \<Longrightarrow>
   fst (excludes_loop (pre @ bad # post) idx s)
     = Inl (ItemNotRegExp (idx + length pre) (typeof bad))"
proof (induction pre arbitrary: idx)
  case Nil
  then show ?case by (cases bad) (simp_all add: is_RegExp_def)
next
  case (Cons it pre)
  from Cons.prems obtain r where it: "it = JSRegExp r"
    by (cases it) (simp_all add: is_RegExp_def)
  from Cons.prems it have miss: "\<not> fst (RegExp_test r s)"
    by (simp add: test_hit_def)
  have "fst (excludes_loop (pre @ bad # post) (Suc idx) s) =
        Inl (ItemNotRegExp (Suc idx + length pre) (typeof bad))"
    using Cons.prems by (intro Cons.IH) simp_all
  then show ?case using it miss
    by (cases "RegExp_test r s") (auto split: prod.splits)
qed

lemma excludes_loop_all_RegExp:
  "list_all is_RegExp its \<Longrightarrow>
   fst (excludes_loop its idx s) = Inr (\<not> list_ex (test_hit s) its)"
proof (induction its arbitrary: idx)
  case Nil
  show ?case by simp
next
  case (Cons it its)
  from Cons.prems obtain r where it: "it = JSRegExp r"
    by (cases it) (simp_all add: is_RegExp_def)
  have ih: "fst (excludes_loop its (Suc idx) s) = Inr (\<not> list_ex (test_hit s) its)"
    using Cons.prems by (intro Cons.IH) simp
  have hit: "test_hit s it = fst (RegExp_test r s)"
    using it by (simp add: test_hit_def)
  show ?case using it ih hit
    by (cases "RegExp_test r s") (auto split: prod.splits bool.splits)
qed

lemma excludes_loop_early_match:
  "list_all is_RegExp pre \<Longrightarrow> \<not> list_ex (test_hit s) pre \<Longrightarrow> test_hit s hit \<Longrightarrow>
   fst (excludes_loop (pre @ hit # post) idx s) = Inr False"
proof (induction pre arbitrary: idx)
  case Nil
  then obtain r where "hit = JSRegExp r" "fst (RegExp_test r s)"
    by (cases hit) (simp_all add: test_hit_def)
  then show ?case
    by (cases "RegExp_test r s") (auto split: prod.splits)
next
  case (Cons it pre)
  from Cons.prems obtain r where it: "it = JSRegExp r"
    by (cases it) (simp_all add: is_RegExp_def)
  from Cons.prems it have miss: "\<not> fst (RegExp_test r s)"
    by (simp add: test_hit_def)
  have "fst (excludes_loop (pre @ hit # post) (Suc idx) s) = Inr False"
    using Cons.prems by (intro Cons.IH) simp_all
  then show ?case using it miss
    by (cases "RegExp_test r s") (auto split: prod.splits)
qed

lemma fst_notExcludes_Array:
  "fst (notExcludes sep (JSArray its) p) = fst (excludes_loop its 0 (convert2Posix sep p))"
  by (simp add: notExcludes_def split: prod.splits)

text \<open>
  C3 as stated fails in plugin.js: the loop of \<^verbatim>\<open>#notExcludes\<close> checks an element
  only when it reaches it, and it leaves at the first pattern that matches. With
  \<^verbatim>\<open>excludes = [/a/, "x"]\<close> the path \<^verbatim>\<open>a.png\<close> is rejected and no error is
  raised, although the element at index 1 is not a pattern.
\<close>

theorem notExcludes_match_hides_bad_item:
  "\<not> is_RegExp (JSString ''x'')
   \<and> fst (notExcludes posix_sep (JSArray [JSRegExp (re_lit ''a''), JSString ''x'']) ''a.png'')
       = Inr False"
  by (simp add: is_RegExp_def notExcludes_def convert2Posix_map eval_test)

text \<open>
  C3 (amended). In plugin.js, with \<^verbatim>\<open>excludes\<close> a list: if the element at index
  \<open>k\<close> is not a pattern, every element before it is one, and none of those matches the
  normalized path, the evaluation fails with the error that names \<open>k\<close> and the
  \<^verbatim>\<open>typeof\<close> of the element; if instead an element is a pattern that matches the
  normalized path, and every element before it is a pattern that does not, the evaluation
  ends with the answer false and no error, whatever follows it in the list; if every
  element is a pattern, the path qualifies iff
  the \<^verbatim>\<open>test\<close> of none of them answers true on the normalized path. In index.js,
  with \<^verbatim>\<open>includes\<close> a list, the elements are never checked and never evaluated as
  patterns: the path qualifies iff it is not itself an element of the list.
\<close>

theorem list_rules:
  "(list_all is_RegExp pre \<and> \<not> list_ex (test_hit (convert2Posix sep p)) pre \<and> \<not> is_RegExp bad
      \<longrightarrow> fst (notExcludes sep (JSArray (pre @ bad # post)) p)
            = Inl (ItemNotRegExp (length pre) (typeof bad)))
   \<and> (list_all is_RegExp pre \<and> \<not> list_ex (test_hit (convert2Posix sep p)) pre
        \<and> test_hit (convert2Posix sep p) hit
      \<longrightarrow> fst (notExcludes sep (JSArray (pre @ hit # rest)) p) = Inr False)
   \<and> (list_all is_RegExp its
      \<longrightarrow> fst (notExcludes sep (JSArray its) p)
            = Inr (\<not> list_ex (test_hit (convert2Posix sep p)) its))
   \<and> inWhiteList (JSArray its) p = (Inr (\<not> Array_includes its p), JSArray its)"
  using excludes_loop_item_error [of pre "convert2Posix sep p" bad post 0]
    excludes_loop_early_match [of pre "convert2Posix sep p" hit rest 0]
    excludes_loop_all_RegExp [of its 0 "convert2Posix sep p"]
  by (simp add: fst_notExcludes_Array inWhiteList_def)

theorem list_rules_witness:
  "list_all is_RegExp [JSRegExp (re_lit ''b'')]
   \<and> \<not> list_ex (test_hit (convert2Posix posix_sep ''a.png'')) [JSRegExp (re_lit ''b'')]
   \<and> \<not> is_RegExp (JSNumber 7)
   \<and> fst (notExcludes posix_sep
            (JSArray [JSRegExp (re_lit ''b''), JSNumber 7, JSRegExp (re_lit ''a'')]) ''a.png'')
       = Inl (ItemNotRegExp 1 ''number'')
   \<and> test_hit (convert2Posix posix_sep ''a.png'') (JSRegExp (re_lit ''a''))
   \<and> fst (notExcludes posix_sep
            (JSArray [JSRegExp (re_lit ''b''), JSRegExp (re_lit ''a''), JSNumber 7, JSNull]) ''a.png'')
       = Inr False
   \<and> list_all is_RegExp [JSRegExp (re_lit ''b''), JSRegExp (re_lit ''.png'')]
   \<and> fst (notExcludes posix_sep
            (JSArray [JSRegExp (re_lit ''b''), JSRegExp (re_lit ''.png'')]) ''a.png'')
       = Inr False
   \<and> fst (inWhiteList (JSArray [JSRegExp (re_lit ''b''), JSRegExp (re_lit ''.png'')]) ''a.png'')
       = Inr True"
  using list_rules [where pre = "[JSRegExp (re_lit ''b'')]" and sep = posix_sep
      and p = "''a.png''" and bad = "JSNumber 7" and post = "[JSRegExp (re_lit ''a'')]"
      and hit = "JSRegExp (re_lit ''a'')" and rest = "[JSNumber 7, JSNull]"
      and its = "[JSRegExp (re_lit ''b''), JSRegExp (re_lit ''.png'')]"]
  by (simp add: is_RegExp_def test_hit_def convert2Posix_map Array_includes_def eval_test)

section \<open>Properties of the metadata differ\<close>

lemma cloneDeep_id: "cloneDeep v = v"
proof (induction v)
  case (JNum a)
  show ?case by simp
next
  case (JObj xs)
  have "map (\<lambda>kv. (fst kv, cloneDeep (snd kv))) xs = map (\<lambda>kv. kv) xs"
  proof (rule map_cong [OF refl])
    fix kv assume m: "kv \<in> set xs"
    obtain k val where kv: "kv = (k, val)" by (cases kv)
    have "cloneDeep (snd kv) = snd kv"
      using JObj.IH [of kv val] m kv by simp
    then show "(fst kv, cloneDeep (snd kv)) = kv" by simp
  qed
  then show ?case by simp
qed

lemma isEqual_refl: "wf_json v \<Longrightarrow> isEqual v v"
proof (induction v)
  case (JNum a)
  show ?case by simp
next
  case (JObj xs)
  from JObj.prems have d: "distinct (map fst xs)" and w: "list_all (\<lambda>kv. wf_json (snd kv)) xs"
    by simp_all
  have "list_all (\<lambda>kv. case map_of xs (fst kv) of None \<Rightarrow> False | Some w \<Rightarrow> isEqual (snd kv) w) xs"
    unfolding list_all_iff
  proof
    fix kv assume m: "kv \<in> set xs"
    obtain k val where kv: "kv = (k, val)" by (cases kv)
    have "map_of xs (fst kv) = Some (snd kv)"
      using d m kv by simp
    moreover have "isEqual (snd kv) (snd kv)"
      using JObj.IH [of kv val] m w kv by (auto simp: list_all_iff)
    ultimately show "case map_of xs (fst kv) of None \<Rightarrow> False | Some w \<Rightarrow> isEqual (snd kv) w"
      by simp
  qed
  then show ?case by simp
qed

lemma isEqual_trans: "isEqual u v \<Longrightarrow> isEqual v w \<Longrightarrow> isEqual u w"
proof (induction u arbitrary: v w)
  case (JNum a)
  then show ?case by (cases v; cases w) simp_all
next
  case (JObj xs)
  from JObj.prems obtain ys where v: "v = JObj ys" by (cases v) simp_all
  from JObj.prems v obtain zs where w: "w = JObj zs" by (cases w) simp_all
  from JObj.prems v w have len: "length xs = length zs" by simp
  have "list_all (\<lambda>kv. case map_of zs (fst kv) of None \<Rightarrow> False | Some c \<Rightarrow> isEqual (snd kv) c) xs"
    unfolding list_all_iff
  proof
    fix kv assume m: "kv \<in> set xs"
    from JObj.prems(1) v m obtain b where b: "map_of ys (fst kv) = Some b" "isEqual (snd kv) b"
      by (auto simp: list_all_iff split: option.splits)
    from b(1) have "(fst kv, b) \<in> set ys" by (rule map_of_SomeD)
    with JObj.prems(2) v w obtain c where c: "map_of zs (fst kv) = Some c" "isEqual b c"
      by (fastforce simp: list_all_iff split: option.splits)
    obtain k val where kv: "kv = (k, val)" by (cases kv)
    have "isEqual (snd kv) c"
      using JObj.IH [of kv val b c] m b(2) c(2) kv by simp
    with c(1) show "case map_of zs (fst kv) of None \<Rightarrow> False | Some c \<Rightarrow> isEqual (snd kv) c"
      by simp
  qed
  with len w show ?case by simp
qed

text \<open>
  C7: for every metadata value \<open>M\<close> (a JavaScript value: no key twice in an object) and
  every state \<open>st\<close> of the differ, \<^verbatim>\<open>isPrevMetadata(M)\<close> called again on the state
  the first call left answers "unchanged", whatever the first call answered; and a first
  call that answers "changed" leaves a deep copy of \<open>M\<close> as the stored metadata.
\<close>

theorem isPrevMetadata_twice:
  assumes "wf_json M"
  shows "fst (isPrevMetadata (snd (isPrevMetadata st M)) M)
    \<and> snd (isPrevMetadata st M) = (if fst (isPrevMetadata st M) then st else Some (cloneDeep M))"
  using assms
  by (cases st) (auto simp: isPrevMetadata_def Let_def cloneDeep_id isEqual_refl)

theorem isPrevMetadata_twice_witness:
  "wf_json (JObj [(''width'', JNum 18), (''frames'', JObj [(''a.png'', JObj [(''x'', JNum 0)])])])
   \<and> \<not> fst (isPrevMetadata None
              (JObj [(''width'', JNum 18), (''frames'', JObj [(''a.png'', JObj [(''x'', JNum 0)])])]))
   \<and> fst (isPrevMetadata
            (snd (isPrevMetadata None
                   (JObj [(''width'', JNum 18),
                          (''frames'', JObj [(''a.png'', JObj [(''x'', JNum 0)])])])))
            (JObj [(''width'', JNum 18), (''frames'', JObj [(''a.png'', JObj [(''x'', JNum 0)])])]))"
proof -
  have wf: "wf_json (JObj [(''width'', JNum 18),
                           (''frames'', JObj [(''a.png'', JObj [(''x'', JNum 0)])])])"
    by simp
  have first: "\<not> fst (isPrevMetadata None
      (JObj [(''width'', JNum 18), (''frames'', JObj [(''a.png'', JObj [(''x'', JNum 0)])])]))"
    by (simp add: isPrevMetadata_def)
  show ?thesis
    using isPrevMetadata_twice [OF wf, of None] wf first by blast
qed

section \<open>Properties of the coordinate metadata\<close>

lemma update_fresh: "k \<notin> set (map fst al) \<Longrightarrow> AList.update k v al = al @ [(k, v)]"
  by (induction al) auto

lemma fold_update_distinct:
  "distinct (map f (map fst coords)) \<Longrightarrow>
   set (map f (map fst coords)) \<inter> set (map fst acc) = {} \<Longrightarrow>
   foldl (\<lambda>m (p, r). AList.update (f p) (g r) m) acc coords
     = acc @ map (\<lambda>(p, r). (f p, g r)) coords"
proof (induction coords arbitrary: acc)
  case Nil
  show ?case by simp
next
  case (Cons c coords)
  obtain p r where c: "c = (p, r)" by (cases c)
  have fresh: "f p \<notin> set (map fst acc)" using Cons.prems c by auto
  have "foldl (\<lambda>m (p, r). AList.update (f p) (g r) m) (acc @ [(f p, g r)]) coords
     = (acc @ [(f p, g r)]) @ map (\<lambda>(p, r). (f p, g r)) coords"
    using Cons.prems c by (intro Cons.IH) auto
  then show ?case using c fresh by (simp add: update_fresh)
qed

lemma fold_update_map_of:
  "map_of (foldl (\<lambda>m (p, r). AList.update (f p) (g r) m) acc coords) k
     = (case map_of (rev (map (\<lambda>(p, r). (f p, g r)) coords)) k of
          Some v \<Rightarrow> Some v | None \<Rightarrow> map_of acc k)"
proof (induction coords arbitrary: acc)
  case Nil
  show ?case by simp
next
  case (Cons c coords)
  obtain p r where c: "c = (p, r)" by (cases c)
  show ?case using c
    by (simp add: Cons.IH update_conv' map_add_def split: option.splits)
qed

lemma split_on_no_sep: "c \<notin> set w \<Longrightarrow> split_on c w = [w]"
  by (induction w) auto

lemma split_on_two_parts: "2 \<le> length (split_on c (xs @ c # w))"
proof (induction xs)
  case Nil
  show ?case using split_on_nonempty [of c w] by (cases "split_on c w") auto
next
  case (Cons y ys)
  then show ?case by (auto split: list.splits)
qed

lemma pop_split_on_append:
  "c \<notin> set w \<Longrightarrow> Array_pop (split_on c (xs @ c # w)) = w"
proof (induction xs)
  case Nil
  then show ?case by (simp add: split_on_no_sep Array_pop_def)
next
  case (Cons x xs)
  obtain a as where sp: "split_on c (xs @ c # w) = a # as"
    using split_on_nonempty [of c "xs @ c # w"] by (cases "split_on c (xs @ c # w)") auto
  have ne: "as \<noteq> []"
    using split_on_two_parts [of c xs w] sp by auto
  from Cons sp have "Array_pop (a # as) = w" by simp
  with ne have "Array_pop ((x # a) # as) = w \<and> Array_pop ([] # a # as) = w"
    by (cases "rev as") (auto simp: Array_pop_def)
  then show ?case using sp by simp
qed

lemma posix_basename_simple:
  assumes n: "posix_sep \<notin> set base" and ne: "base \<noteq> []"
  shows "posix_basename (xs @ posix_sep # base) = base"
proof -
  have h: "hd (rev base) \<noteq> posix_sep" using n ne
    by (metis hd_rev last_in_set)
  have "dropWhile (\<lambda>c. c = posix_sep) (rev base @ posix_sep # rev xs)
      = rev base @ posix_sep # rev xs"
    using h ne by (cases "rev base") auto
  moreover have "takeWhile (\<lambda>c. c \<noteq> posix_sep) (rev base @ posix_sep # rev xs) = rev base"
    using n by (subst takeWhile_append2) auto
  ultimately show ?thesis by (simp add: posix_basename_def)
qed

lemma posix_dirname_simple:
  assumes n: "posix_sep \<notin> set base" and ne: "base \<noteq> []"
    and d: "dir \<noteq> []" and nd: "dir \<noteq> [posix_sep]"
  shows "posix_dirname (dir @ posix_sep # base) = dir"
proof -
  obtain c cs where dir: "dir = c # cs" using d by (cases dir) auto
  have h: "hd (rev base) \<noteq> posix_sep" using n ne
    by (metis hd_rev last_in_set)
  have 1: "dropWhile (\<lambda>a. a = posix_sep) (rev base @ posix_sep # rev cs)
      = rev base @ posix_sep # rev cs"
    using h ne by (cases "rev base") auto
  have 2: "dropWhile (\<lambda>a. a \<noteq> posix_sep) (rev base @ posix_sep # rev cs) = posix_sep # rev cs"
    using n by (subst dropWhile_append2) auto
  show ?thesis using dir nd by (simp add: posix_dirname_def 1 2)
qed

lemma fileName_parent_base:
  assumes "posix_sep \<notin> set parent" "parent \<noteq> []" "posix_sep \<notin> set base" "base \<noteq> []"
  shows "fileName posix_path (parent @ posix_sep # base) = parent @ ''_'' @ base"
    and "fileName posix_path (up @ posix_sep # parent @ posix_sep # base) = parent @ ''_'' @ base"
proof -
  have "posix_dirname (parent @ posix_sep # base) = parent"
    using assms by (intro posix_dirname_simple) auto
  then show "fileName posix_path (parent @ posix_sep # base) = parent @ ''_'' @ base"
    using assms posix_basename_simple [of base "parent"]
    by (simp add: fileName_def posix_path_def split_on_no_sep Array_pop_def)
next
  have "up @ posix_sep # parent \<noteq> [posix_sep]"
    using assms by (cases up) auto
  then have "posix_dirname ((up @ posix_sep # parent) @ posix_sep # base) = up @ posix_sep # parent"
    using assms by (intro posix_dirname_simple) auto
  then show "fileName posix_path (up @ posix_sep # parent @ posix_sep # base) = parent @ ''_'' @ base"
    using assms posix_basename_simple [of base "up @ posix_sep # parent"]
      pop_split_on_append [of posix_sep parent up]
    by (simp add: fileName_def posix_path_def)
qed

lemma posix_path_simps:
  "path_sep posix_path = posix_sep"
  "path_dirname posix_path = posix_dirname"
  "path_basename posix_path = posix_basename"
  by (simp_all add: posix_path_def)

lemmas eval_path =
  fileName_def posix_path_def posix_dirname_def posix_basename_def Array_pop_def posix_sep_def

text \<open>
  C6 as stated fails on its own example: \<^verbatim>\<open>#generateSpriteSheet\<close> never reads
  \<^verbatim>\<open>properties\<close>, and the manifest it builds for the placements of
  \<^verbatim>\<open>icons/a.png\<close> and \<^verbatim>\<open>icons/b.png\<close> on the 18 by 10 sheet is the flat object of
  the two frames, not an object with \<^verbatim>\<open>width\<close>, \<^verbatim>\<open>height\<close> and
  \<^verbatim>\<open>frames\<close>.
\<close>

theorem manifest_is_flat:
  "manifest_metadata posix_path (coordinates scenario1_result)
     = JObj [(''icons_a.png'',
                JObj [(''x'', JNum 0), (''y'', JNum 0), (''w'', JNum 10), (''h'', JNum 10)]),
             (''icons_b.png'',
                JObj [(''x'', JNum 10), (''y'', JNum 0), (''w'', JNum 8), (''h'', JNum 8)])]
   \<and> \<not> isEqual (manifest_metadata posix_path (coordinates scenario1_result))
        (JObj [(''width'', JNum 18), (''height'', JNum 10),
               (''frames'',
                JObj [(''icons_a.png'',
                         JObj [(''x'', JNum 0), (''y'', JNum 0), (''w'', JNum 10), (''h'', JNum 10)]),
                      (''icons_b.png'',
                         JObj [(''x'', JNum 10), (''y'', JNum 0), (''w'', JNum 8), (''h'', JNum 8)])])])"
  by (simp add: manifest_metadata_def scenario1_result_def frame_json_def eval_path)

lemma pop_last_segment:
  assumes "c \<notin> set parent" and "dir = parent \<or> dir = up @ c # parent"
  shows "Array_pop (split_on c dir) = parent"
  using assms pop_split_on_append [of c parent up]
  by (auto simp: split_on_no_sep Array_pop_def)

text \<open>
  C6 (amended). The manifest of plugin.js is the flat object of the frames, without the
  sheet's width and height: when no two placements share a key it has, in the order of the
  placements, one entry per placement, from the key \<^verbatim>\<open>fileName\<close> of the identifier to
  \<open>x\<close>, \<open>y\<close>, \<open>w\<close>, \<open>h\<close> of its rectangle; in general a key holds the rectangle of
  the last placement that has it. On every platform the key is the last
  \<^verbatim>\<open>path.sep\<close> segment of the platform's \<^verbatim>\<open>path.dirname\<close> of the identifier,
  then \<^verbatim>\<open>_\<close>, then the platform's \<^verbatim>\<open>path.basename\<close> of the identifier; on a
  POSIX platform, for an identifier \<^verbatim>\<open>parent/base\<close> or \<^verbatim>\<open>up/parent/base\<close>
  (\<open>parent\<close> and \<open>base\<close> non-empty and without \<^verbatim>\<open>/\<close>), that is
  \<^verbatim>\<open>parent_base\<close>. The width and height the packer reports are carried by the
  metadata of index.js only, whose frames are keyed by the platform's basename.
\<close>

theorem manifest_frames:
  "(distinct (map (\<lambda>c. fileName pm (fst c)) coords) \<longrightarrow>
      manifest_metadata pm coords = JObj (map (\<lambda>(p, r). (fileName pm p, frame_json r)) coords))
   \<and> map_of (obj_entries (manifest_metadata pm coords)) k
       = map_of (rev (map (\<lambda>(p, r). (fileName pm p, frame_json r)) coords)) k
   \<and> (path_sep pm \<notin> set parent
        \<and> (path_dirname pm ident = parent \<or> path_dirname pm ident = up @ path_sep pm # parent)
        \<longrightarrow> fileName pm ident = parent @ ''_'' @ path_basename pm ident)
   \<and> (posix_sep \<notin> set parent \<and> parent \<noteq> [] \<and> posix_sep \<notin> set base \<and> base \<noteq> [] \<longrightarrow>
        fileName posix_path (parent @ posix_sep # base) = parent @ ''_'' @ base
        \<and> fileName posix_path (up @ posix_sep # parent @ posix_sep # base) = parent @ ''_'' @ base)
   \<and> map_of (obj_entries (coordinateMeta_of pm result)) ''width''
       = Some (JNum (prop_width (properties result)))
   \<and> map_of (obj_entries (coordinateMeta_of pm result)) ''height''
       = Some (JNum (prop_height (properties result)))
   \<and> (\<exists>frames. map_of (obj_entries (coordinateMeta_of pm result)) ''frames'' = Some (JObj frames)
        \<and> map_of frames k
            = map_of (rev (map (\<lambda>(p, r). (path_basename pm p, rect_json r)) (coordinates result))) k)"
proof (intro conjI impI)
  assume "distinct (map (\<lambda>c. fileName pm (fst c)) coords)"
  then have "distinct (map (fileName pm) (map fst coords))" by (simp add: comp_def)
  then show "manifest_metadata pm coords
      = JObj (map (\<lambda>(p, r). (fileName pm p, frame_json r)) coords)"
    using fold_update_distinct [of "fileName pm" coords "[]" frame_json]
    by (simp add: manifest_metadata_def)
next
  show "map_of (obj_entries (manifest_metadata pm coords)) k
       = map_of (rev (map (\<lambda>(p, r). (fileName pm p, frame_json r)) coords)) k"
    by (simp add: manifest_metadata_def fold_update_map_of split: option.splits)
next
  assume a: "path_sep pm \<notin> set parent
    \<and> (path_dirname pm ident = parent \<or> path_dirname pm ident = up @ path_sep pm # parent)"
  then have "Array_pop (split_on (path_sep pm) (path_dirname pm ident)) = parent"
    by (intro pop_last_segment [where up = up]) simp_all
  then show "fileName pm ident = parent @ ''_'' @ path_basename pm ident"
    by (simp add: fileName_def)
next
  assume a: "posix_sep \<notin> set parent \<and> parent \<noteq> [] \<and> posix_sep \<notin> set base \<and> base \<noteq> []"
  then show "fileName posix_path (parent @ posix_sep # base) = parent @ ''_'' @ base"
    using fileName_parent_base(1) [of parent base] by simp
  from a show "fileName posix_path (up @ posix_sep # parent @ posix_sep # base)
      = parent @ ''_'' @ base"
    using fileName_parent_base(2) [of parent base up] by simp
next
  show "map_of (obj_entries (coordinateMeta_of pm result)) ''width''
       = Some (JNum (prop_width (properties result)))"
    by (simp add: coordinateMeta_of_def)
  show "map_of (obj_entries (coordinateMeta_of pm result)) ''height''
       = Some (JNum (prop_height (properties result)))"
    by (simp add: coordinateMeta_of_def)
  show "\<exists>frames. map_of (obj_entries (coordinateMeta_of pm result)) ''frames'' = Some (JObj frames)
        \<and> map_of frames k
            = map_of (rev (map (\<lambda>(p, r). (path_basename pm p, rect_json r))
                (coordinates result))) k"
    by (simp add: coordinateMeta_of_def fold_update_map_of split: option.splits)
qed

theorem manifest_frames_witness:
  "distinct (map (\<lambda>c. fileName posix_path (fst c)) (coordinates scenario1_result))
   \<and> manifest_metadata posix_path (coordinates scenario1_result)
       = JObj (map (\<lambda>(p, r). (fileName posix_path p, frame_json r)) (coordinates scenario1_result))
   \<and> path_sep posix_path \<notin> set ''icons''
   \<and> path_dirname posix_path ''/srv/app/icons/a.png'' = ''/srv/app'' @ path_sep posix_path # ''icons''
   \<and> fileName posix_path ''/srv/app/icons/a.png''
       = ''icons'' @ ''_'' @ path_basename posix_path ''/srv/app/icons/a.png''
   \<and> posix_sep \<notin> set ''icons'' \<and> posix_sep \<notin> set ''a.png''
   \<and> fileName posix_path (''icons'' @ posix_sep # ''a.png'') = ''icons_a.png''
   \<and> fileName posix_path (''/srv/app'' @ posix_sep # ''icons'' @ posix_sep # ''a.png'')
       = ''icons_a.png''"
proof -
  note m = manifest_frames [where pm = posix_path and coords = "coordinates scenario1_result"
      and k = "''icons_a.png''" and parent = "''icons''" and base = "''a.png''"
      and up = "''/srv/app''" and ident = "''/srv/app/icons/a.png''"
      and result = scenario1_result]
  have d: "distinct (map (\<lambda>c. fileName posix_path (fst c)) (coordinates scenario1_result))"
    by (simp add: scenario1_result_def eval_path)
  have c1: "manifest_metadata posix_path (coordinates scenario1_result)
       = JObj (map (\<lambda>(p, r). (fileName posix_path p, frame_json r)) (coordinates scenario1_result))"
    using m d by blast
  have h3: "path_sep posix_path \<notin> set ''icons''"
    by (simp add: posix_path_simps posix_sep_def)
  have dn: "path_dirname posix_path ''/srv/app/icons/a.png''
      = ''/srv/app'' @ path_sep posix_path # ''icons''"
    by (simp add: posix_path_simps posix_dirname_def posix_sep_def)
  have c3: "fileName posix_path ''/srv/app/icons/a.png''
       = ''icons'' @ ''_'' @ path_basename posix_path ''/srv/app/icons/a.png''"
    using m h3 dn by blast
  have h4: "posix_sep \<notin> set ''icons''" "posix_sep \<notin> set ''a.png''"
    "''icons'' \<noteq> []" "''a.png'' \<noteq> []"
    by (simp_all add: posix_sep_def)
  have c4: "fileName posix_path (''icons'' @ posix_sep # ''a.png'') = ''icons'' @ ''_'' @ ''a.png''"
    "fileName posix_path (''/srv/app'' @ posix_sep # ''icons'' @ posix_sep # ''a.png'')
       = ''icons'' @ ''_'' @ ''a.png''"
    using m h4 by blast+
  show ?thesis
    using d c1 h3 dn c3 h4 c4 by simp
qed

section \<open>Properties of the \<^verbatim>\<open>processAssets\<close> handler (index.js)\<close>

lemma filter_images_subset:
  "fst (filter_images q rules ps) = Inr keep \<Longrightarrow> set keep \<subseteq> set ps"
proof (induction ps arbitrary: rules keep)
  case Nil
  then show ?case by simp
next
  case (Cons p ps)
  obtain res rules' where q: "q rules p = (res, rules')" by (cases "q rules p")
  show ?case
  proof (cases res)
    case (Inl e)
    with Cons.prems q show ?thesis by simp
  next
    case (Inr ok)
    obtain res2 rules'' where f: "filter_images q rules' ps = (res2, rules'')"
      by (cases "filter_images q rules' ps")
    show ?thesis
    proof (cases res2)
      case (Inl e)
      with Cons.prems q Inr f show ?thesis by simp
    next
      case inr2: (Inr keep2)
      have s: "set keep2 \<subseteq> set ps"
        using Cons.IH [of rules' keep2] f inr2 by simp
      show ?thesis using Cons.prems q Inr f inr2 s by (auto split: if_splits)
    qed
  qed
qed

lemma filter_images_distinct:
  "fst (filter_images q rules ps) = Inr keep \<Longrightarrow> distinct ps \<Longrightarrow> distinct keep"
proof (induction ps arbitrary: rules keep)
  case Nil
  then show ?case by simp
next
  case (Cons p ps)
  obtain res rules' where q: "q rules p = (res, rules')" by (cases "q rules p")
  show ?case
  proof (cases res)
    case (Inl e)
    with Cons.prems q show ?thesis by simp
  next
    case (Inr ok)
    obtain res2 rules'' where f: "filter_images q rules' ps = (res2, rules'')"
      by (cases "filter_images q rules' ps")
    show ?thesis
    proof (cases res2)
      case (Inl e)
      with Cons.prems q Inr f show ?thesis by simp
    next
      case inr2: (Inr keep2)
      have d: "distinct keep2" and s: "set keep2 \<subseteq> set ps"
        using Cons.IH [of rules' keep2] filter_images_subset [of q rules' ps keep2] f inr2 Cons.prems(2)
        by simp_all
      show ?thesis using Cons.prems q Inr f inr2 d s by (auto split: if_splits)
    qed
  qed
qed

lemma map_of_delete_all:
  "map_of (foldl (\<lambda>a imagePath. deleteAsset imagePath a) al others) k
     = (if k \<in> set others then None else map_of al k)"
  by (induction others arbitrary: al) (simp_all add: deleteAsset_def delete_conv')

lemma keys_delete_all:
  "map fst (foldl (\<lambda>a imagePath. deleteAsset imagePath a) al others)
     = filter (\<lambda>k. k \<notin> set others) (map fst al)"
proof (induction others arbitrary: al)
  case Nil
  show ?case by simp
next
  case (Cons p others)
  have "map fst (AList.delete p al) = filter (\<lambda>k. k \<noteq> p) (map fst al)"
    by (induction al) auto
  then show ?case using Cons [of "deleteAsset p al"]
    by (simp add: deleteAsset_def)
qed

lemma processAssets_packed:
  assumes "packs packer vinyl_path self assets imagesPath result"
  shows "processAssets pm packer vinyl_path self assets =
     \<lparr>thrown = None,
      state_after =
        (self\<lparr>this_includes := snd (filter_images inWhiteList (this_includes self) (map fst assets)),
               this_coordinateMeta :=
                 snd (isPrevMetadata (this_coordinateMeta self) (coordinateMeta_of pm result))\<rparr>,
         foldl (\<lambda>a imagePath. deleteAsset imagePath a)
           (AList.update (hd imagesPath) (image result) assets) (tl imagesPath)),
      trace = PackerRun (images_data vinyl_path assets imagesPath)
        # (if \<not> fst (isPrevMetadata (this_coordinateMeta self) (coordinateMeta_of pm result))
           then [WriteCoordinate (coordinateMeta_of pm result)] else []) @ [Callback]\<rparr>"
proof -
  obtain first others where ip: "imagesPath = first # others"
    using assms by (cases imagesPath) (simp_all add: packs_def)
  obtain incl' where f: "filter_images inWhiteList (this_includes self) (map fst assets)
      = (Inr (first # others), incl')"
    using assms ip by (cases "filter_images inWhiteList (this_includes self) (map fst assets)")
      (simp add: packs_def)
  have pk: "packer (images_data vinyl_path assets (first # others)) = Inr result"
    using assms ip by (simp add: packs_def)
  have "first \<in> set (map fst assets)"
    using filter_images_subset [of inWhiteList "this_includes self" "map fst assets" "first # others"] f
    by simp
  then have up: "updateAsset first (image result) assets
      = Inr (AList.update first (image result) assets)"
    by (simp add: updateAsset_def)
  obtain eq meta' where d: "isPrevMetadata (this_coordinateMeta self) (coordinateMeta_of pm result) = (eq, meta')"
    by (cases "isPrevMetadata (this_coordinateMeta self) (coordinateMeta_of pm result)")
  show ?thesis
    unfolding processAssets_def f
    using pk up d ip
    by (simp add: sprite_created_def Let_def)
qed

lemma filter_eq_singleton:
  "distinct ks \<Longrightarrow> k \<in> set ks \<Longrightarrow> filter (\<lambda>x. x = k) ks = [k]"
proof (induction ks)
  case Nil
  then show ?case by simp
next
  case (Cons a ks)
  show ?case
  proof (cases "a = k")
    case True
    with Cons.prems have "k \<notin> set ks" by simp
    then have "filter (\<lambda>x. x = k) ks = []"
      by (auto simp: filter_empty_conv)
    with True show ?thesis by simp
  next
    case False
    with Cons show ?thesis by simp
  qed
qed

lemmas eval_filter =
  inWhiteList_def notExcludes_def isPng_def endsWith_def

lemma scenario2_packs:
  "packs (\<lambda>srcs. Inr scenario1_result) id fresh_plugin scenario2_assets
     [''x.png'', ''y.png'', ''z.png''] scenario1_result"
  by (simp add: packs_def fresh_plugin_def scenario2_assets_def eval_filter)

subsection \<open>Reconciliation\<close>

text \<open>
  C4: in index.js, when the assets are a JavaScript object (no name twice), the list
  \<open>imagesPath\<close> of qualifying names is not empty and the packer returns \<open>result\<close>, then
  after the handler the asset at the first name of \<open>imagesPath\<close> is the sheet image, no
  other name of \<open>imagesPath\<close> is an asset any more, and so of all the names of
  \<open>imagesPath\<close> exactly the first is left among the assets.
\<close>

theorem one_slot_remains:
  assumes d: "distinct (map fst assets)"
    and p: "packs packer vinyl_path self assets imagesPath result"
  shows "map_of (snd (state_after (processAssets pm packer vinyl_path self assets))) (hd imagesPath)
           = Some (image result)
    \<and> (\<forall>q \<in> set (tl imagesPath).
          map_of (snd (state_after (processAssets pm packer vinyl_path self assets))) q = None)
    \<and> filter (\<lambda>k. k \<in> set imagesPath)
        (map fst (snd (state_after (processAssets pm packer vinyl_path self assets))))
        = [hd imagesPath]"
proof -
  let ?A = "snd (state_after (processAssets pm packer vinyl_path self assets))"
  obtain first others where ip: "imagesPath = first # others"
    using p by (cases imagesPath) (simp_all add: packs_def)
  have f: "fst (filter_images inWhiteList (this_includes self) (map fst assets)) = Inr (first # others)"
    using p ip by (simp add: packs_def)
  have sub: "set (first # others) \<subseteq> set (map fst assets)"
    using filter_images_subset [OF f] .
  have dis: "distinct (first # others)"
    using filter_images_distinct [OF f d] .
  have A: "?A = foldl (\<lambda>a imagePath. deleteAsset imagePath a)
                  (AList.update first (image result) assets) others"
    by (simp add: processAssets_packed [OF p] ip)
  have m1: "map_of ?A first = Some (image result)"
    using dis by (simp add: A map_of_delete_all update_conv')
  have m2: "\<forall>q \<in> set others. map_of ?A q = None"
    by (simp add: A map_of_delete_all)
  have keys: "map fst ?A = filter (\<lambda>k. k \<notin> set others) (map fst assets)"
    using sub by (simp add: A keys_delete_all update_keys)
  have "filter (\<lambda>k. k \<in> set (first # others)) (map fst ?A) = filter (\<lambda>k. k = first) (map fst assets)"
    unfolding keys filter_filter using dis by (intro filter_cong refl) auto
  also have "\<dots> = [first]"
    using filter_eq_singleton [OF d, of first] sub by simp
  finally show ?thesis using m1 m2 ip by simp
qed

theorem one_slot_remains_witness:
  "distinct (map fst scenario2_assets)
   \<and> packs (\<lambda>srcs. Inr scenario1_result) id fresh_plugin scenario2_assets
        [''x.png'', ''y.png'', ''z.png''] scenario1_result
   \<and> map_of (snd (state_after
        (processAssets posix_path (\<lambda>srcs. Inr scenario1_result) id fresh_plugin scenario2_assets))) ''x.png''
       = Some (image scenario1_result)
   \<and> map_of (snd (state_after
        (processAssets posix_path (\<lambda>srcs. Inr scenario1_result) id fresh_plugin scenario2_assets))) ''y.png''
       = None
   \<and> map_of (snd (state_after
        (processAssets posix_path (\<lambda>srcs. Inr scenario1_result) id fresh_plugin scenario2_assets))) ''z.png''
       = None
   \<and> filter (\<lambda>k. k \<in> set [''x.png'', ''y.png'', ''z.png''])
        (map fst (snd (state_after
           (processAssets posix_path (\<lambda>srcs. Inr scenario1_result) id fresh_plugin scenario2_assets))))
       = [''x.png'']"
proof -
  have d: "distinct (map fst scenario2_assets)"
    by (simp add: scenario2_assets_def)
  show ?thesis
    using one_slot_remains [OF d scenario2_packs] d scenario2_packs by simp
qed

subsection \<open>The gate on the metadata write\<close>

lemma wf_update:
  "wf_json (JObj al) \<Longrightarrow> wf_json v \<Longrightarrow> wf_json (JObj (AList.update k v al))"
proof -
  assume a: "wf_json (JObj al)" and v: "wf_json v"
  have "set (AList.update k v al) \<subseteq> insert (k, v) (set al)"
    by (induction al) auto
  with a v have "list_all (\<lambda>kv. wf_json (snd kv)) (AList.update k v al)"
    by (auto simp: list_all_iff)
  with a show ?thesis by (simp add: distinct_update)
qed

lemma wf_fold_update:
  "wf_json (JObj acc) \<Longrightarrow> (\<And>r. wf_json (g r)) \<Longrightarrow>
   wf_json (JObj (foldl (\<lambda>m (p, r). AList.update (f p) (g r) m) acc coords))"
  by (induction coords arbitrary: acc) (auto simp: wf_update simp del: wf_json.simps)

lemma wf_coordinateMeta_of: "wf_json (coordinateMeta_of pm result)"
proof -
  have "wf_json (JObj (foldl (\<lambda>frames (relativePath, r).
           AList.update (path_basename pm relativePath) (rect_json r) frames) [] (coordinates result)))"
    by (rule wf_fold_update) (simp_all add: rect_json_def)
  then show ?thesis by (simp add: coordinateMeta_of_def)
qed

lemma isPrevMetadata_after:
  "wf_json M \<Longrightarrow> \<exists>prev. snd (isPrevMetadata st M) = Some prev \<and> isEqual prev M"
  by (cases st) (auto simp: isPrevMetadata_def Let_def cloneDeep_id isEqual_refl)

lemma scenario2_second_packs:
  "packs (\<lambda>srcs. Inr scenario1_result) id
     (fst (state_after
        (processAssets posix_path (\<lambda>srcs. Inr scenario1_result) id fresh_plugin scenario2_assets)))
     scenario2_assets [''x.png'', ''y.png'', ''z.png''] scenario1_result"
  by (simp add: processAssets_packed [OF scenario2_packs])
    (simp add: packs_def fresh_plugin_def scenario2_assets_def eval_filter)

text \<open>
  C2 as stated fails in plugin.js, which has no differ: \<^verbatim>\<open>#generateSpriteSheet\<close>
  issues the write of the manifest on every pack. Two production runs in a row on the same
  two images, with the same packer result, both write the same manifest.
\<close>

theorem manifest_rewritten_every_pack:
  "WriteManifest (manifest_metadata posix_path (coordinates scenario1_result))
     \<in> set (trace (beforeRun posix_path (\<lambda>srcs. Inr scenario1_result) id JSUndefined
                     [''icons/a.png'', ''icons/b.png''] [(ManifestFile, True), (SpriteFile, True)]))
   \<and> WriteManifest (manifest_metadata posix_path (coordinates scenario1_result))
     \<in> set (trace (beforeRun posix_path (\<lambda>srcs. Inr scenario1_result) id
                     (state_after (beforeRun posix_path (\<lambda>srcs. Inr scenario1_result) id JSUndefined
                        [''icons/a.png'', ''icons/b.png''] [(ManifestFile, True), (SpriteFile, True)]))
                     [''icons/a.png'', ''icons/b.png''] [(ManifestFile, True), (SpriteFile, True)]))"
  by (simp add: beforeRun_def generateSpriteSheet_def eval_filter)

text \<open>
  C2 (amended). In index.js, a successful pack attempt writes the metadata exactly when
  \<^verbatim>\<open>isPrevMetadata\<close> answers that it differs from the stored one, and then writes it
  once; and when a successful attempt is followed by a successful attempt whose metadata
  is structurally equal to that of the first, the second attempt writes nothing. In
  plugin.js every successful pack issues the write of the manifest.
\<close>

theorem metadata_written_iff_changed:
  "(packs packer vinyl_path self assets imagesPath result \<longrightarrow>
      coordinate_writes (trace (processAssets pm packer vinyl_path self assets))
        = (if fst (isPrevMetadata (this_coordinateMeta self) (coordinateMeta_of pm result)) then []
           else [coordinateMeta_of pm result]))
   \<and> (packs packer vinyl_path self assets imagesPath result
       \<and> packs packer' vinyl_path (fst (state_after (processAssets pm packer vinyl_path self assets)))
           assets' imagesPath' result'
       \<and> isEqual (coordinateMeta_of pm result) (coordinateMeta_of pm result')
      \<longrightarrow> coordinate_writes
            (trace (processAssets pm packer' vinyl_path
                      (fst (state_after (processAssets pm packer vinyl_path self assets))) assets'))
          = [])
   \<and> (packer (map SrcPath sources) = Inr result \<longrightarrow>
        WriteManifest (manifest_metadata pm (coordinates result))
          \<in> set (snd (generateSpriteSheet pm packer sources callback completions)))"
proof (intro conjI impI)
  assume p: "packs packer vinyl_path self assets imagesPath result"
  show "coordinate_writes (trace (processAssets pm packer vinyl_path self assets))
        = (if fst (isPrevMetadata (this_coordinateMeta self) (coordinateMeta_of pm result)) then []
           else [coordinateMeta_of pm result])"
    by (simp add: processAssets_packed [OF p])
next
  let ?self1 = "fst (state_after (processAssets pm packer vinyl_path self assets))"
  assume a: "packs packer vinyl_path self assets imagesPath result
       \<and> packs packer' vinyl_path ?self1 assets' imagesPath' result'
       \<and> isEqual (coordinateMeta_of pm result) (coordinateMeta_of pm result')"
  then have p1: "packs packer vinyl_path self assets imagesPath result"
    and p2: "packs packer' vinyl_path ?self1 assets' imagesPath' result'"
    and eq: "isEqual (coordinateMeta_of pm result) (coordinateMeta_of pm result')"
    by simp_all
  obtain prev where prev: "snd (isPrevMetadata (this_coordinateMeta self) (coordinateMeta_of pm result)) = Some prev"
    "isEqual prev (coordinateMeta_of pm result)"
    using isPrevMetadata_after [OF wf_coordinateMeta_of [of pm result],
        of "this_coordinateMeta self"]
    by blast
  have st: "this_coordinateMeta ?self1 = Some prev"
    using prev(1) by (simp add: processAssets_packed [OF p1])
  have "isEqual prev (coordinateMeta_of pm result')"
    using isEqual_trans [OF prev(2) eq] .
  then have "fst (isPrevMetadata (this_coordinateMeta ?self1) (coordinateMeta_of pm result'))"
    by (simp add: st isPrevMetadata_def)
  then show "coordinate_writes (trace (processAssets pm packer' vinyl_path ?self1 assets')) = []"
    by (simp add: processAssets_packed [OF p2])
next
  assume "packer (map SrcPath sources) = Inr result"
  then show "WriteManifest (manifest_metadata pm (coordinates result))
      \<in> set (snd (generateSpriteSheet pm packer sources callback completions))"
    by (simp add: generateSpriteSheet_def)
qed

theorem metadata_written_iff_changed_witness:
  "packs (\<lambda>srcs. Inr scenario1_result) id fresh_plugin scenario2_assets
        [''x.png'', ''y.png'', ''z.png''] scenario1_result
   \<and> isEqual (coordinateMeta_of posix_path scenario1_result) (coordinateMeta_of posix_path scenario1_result)
   \<and> coordinate_writes (trace
        (processAssets posix_path (\<lambda>srcs. Inr scenario1_result) id fresh_plugin scenario2_assets))
       = [coordinateMeta_of posix_path scenario1_result]
   \<and> coordinate_writes (trace
        (processAssets posix_path (\<lambda>srcs. Inr scenario1_result) id
           (fst (state_after
              (processAssets posix_path (\<lambda>srcs. Inr scenario1_result) id fresh_plugin scenario2_assets)))
           scenario2_assets))
       = []"
proof -
  have eq: "isEqual (coordinateMeta_of posix_path scenario1_result) (coordinateMeta_of posix_path scenario1_result)"
    by (rule isEqual_refl [OF wf_coordinateMeta_of])
  have first: "\<not> fst (isPrevMetadata (this_coordinateMeta fresh_plugin)
      (coordinateMeta_of posix_path scenario1_result))"
    by (simp add: fresh_plugin_def isPrevMetadata_def)
  show ?thesis
    using metadata_written_iff_changed [where pm = posix_path
        and packer = "\<lambda>srcs. Inr scenario1_result" and vinyl_path = id and self = fresh_plugin
        and assets = scenario2_assets and imagesPath = "[''x.png'', ''y.png'', ''z.png'']"
        and result = scenario1_result and packer' = "\<lambda>srcs. Inr scenario1_result"
        and assets' = scenario2_assets and imagesPath' = "[''x.png'', ''y.png'', ''z.png'']"
        and result' = scenario1_result and sources = "[]" and callback = True
        and completions = "[]"]
      scenario2_packs scenario2_second_packs eq first
    by simp
qed

subsection \<open>No qualifying image\<close>

text \<open>
  C1, on both handlers. When no candidate qualifies, \<^verbatim>\<open>processAssets\<close> of index.js
  only calls the callback and leaves the assets as they are; the \<^verbatim>\<open>beforeRun\<close>
  handler of plugin.js does nothing at all: it invokes no packer and writes nothing, but
  it never calls the callback the host waits for either.
\<close>

theorem no_qualifying_images:
  "(fst (filter_images inWhiteList (this_includes self) (map fst assets)) = Inr [] \<longrightarrow>
      trace (processAssets pm packer vinyl_path self assets) = [Callback]
      \<and> snd (state_after (processAssets pm packer vinyl_path self assets)) = assets)
   \<and> (fst (filter_images (notExcludes (path_sep pm)) excludes (map join_cwd scanned)) = Inr [] \<longrightarrow>
      trace (beforeRun pm packer join_cwd excludes scanned completions) = []
      \<and> thrown (beforeRun pm packer join_cwd excludes scanned completions) = None)"
  by (auto simp: processAssets_def beforeRun_def Let_def split: prod.splits sum.splits)

theorem no_qualifying_images_witness:
  "fst (filter_images inWhiteList (this_includes fresh_plugin) (map fst [(''main.js'', [4::nat])]))
     = Inr []
   \<and> trace (processAssets posix_path (\<lambda>srcs. Inl PackerFailure) id fresh_plugin [(''main.js'', [4])])
       = [Callback]
   \<and> fst (filter_images (notExcludes (path_sep posix_path)) JSUndefined (map id [''readme.md'']))
       = Inr []
   \<and> trace (beforeRun posix_path (\<lambda>srcs. Inl PackerFailure) id JSUndefined [''readme.md''] []) = []
   \<and> thrown (beforeRun posix_path (\<lambda>srcs. Inl PackerFailure) id JSUndefined [''readme.md''] [])
       = None"
proof -
  have a: "fst (filter_images inWhiteList (this_includes fresh_plugin)
                 (map fst [(''main.js'', [4::nat])])) = Inr []"
    by (simp add: fresh_plugin_def eval_filter)
  have b: "fst (filter_images (notExcludes (path_sep posix_path)) JSUndefined
                 (map id [''readme.md''])) = Inr []"
    by (simp add: eval_filter)
  show ?thesis
    using no_qualifying_images [where pm = posix_path and self = fresh_plugin
        and assets = "[(''main.js'', [4])]" and packer = "\<lambda>srcs. Inl PackerFailure"
        and vinyl_path = id and excludes = JSUndefined and join_cwd = id
        and scanned = "[''readme.md'']" and completions = "[]"] a b
    by simp
qed

section \<open>Properties of plugin.js\<close>

subsection \<open>The completion signal\<close>

lemma settle_all_both_succeed:
  "settle_all False 2 [(f, True), (g, True)] = [WriteDone f True, WriteDone g True, Callback]"
  by simp

lemma generateSpriteSheet_without_callback:
  "Callback \<notin> set (snd (generateSpriteSheet pm packer sources False completions))"
  by (auto simp: generateSpriteSheet_def split: sum.splits)

text \<open>
  C8, in the case where the code departs from it. A callback was passed, the write of the manifest fails first and
  the write of the sheet image ends after it: \<^verbatim>\<open>Promise.all\<close> rejects at the first
  failure, so the callback is called while the write of the sheet image has not ended.
\<close>

theorem callback_precedes_unfinished_write:
  "generateSpriteSheet pm (\<lambda>srcs. Inr result) sources True
     [(ManifestFile, False), (SpriteFile, True)]
   = (None,
      [PackerRun (map SrcPath sources), WriteManifest (manifest_metadata pm (coordinates result)),
       WriteSprite (image result),
       WriteDone ManifestFile False, Callback, WriteDone SpriteFile True])"
  by (simp add: generateSpriteSheet_def)

subsection \<open>Watch mode\<close>

text \<open>
  C10: the handler of the watcher's \<^verbatim>\<open>"all"\<close> event has no effect at all, so it does
  not enter \<^verbatim>\<open>#spriteProcess\<close> and invokes no packer, when the event is
  \<^verbatim>\<open>"renamed"\<close> or when the path of the event is, by \<^verbatim>\<open>#pathEqual\<close>, the path of
  the sprite image or the path of the manifest.
\<close>

theorem own_outputs_never_repack:
  "event = ''renamed'' \<or> pathEqual relative filePath (spriteImagePath self)
     \<or> pathEqual relative filePath (manifestPath self) \<Longrightarrow>
   trace (on_all pm packer relative self watcher completions event filePath) = []"
  by (auto simp: on_all_def split: prod.splits sum.splits)

theorem own_outputs_never_repack_witness:
  "pathEqual relative_resolved ''/out/sprite.png'' (spriteImagePath watch_plugin1)
   \<and> trace (on_all posix_path (\<lambda>srcs. Inr scenario1_result) relative_resolved watch_plugin1
        (Some [(''/src/icons/'', [''/src/icons/a.png''])]) [] ''changed'' ''/out/sprite.png'') = []
   \<and> trace (on_all posix_path (\<lambda>srcs. Inr scenario1_result) relative_resolved watch_plugin1
        (Some [(''/src/icons/'', [''/src/icons/a.png''])]) [] ''changed'' ''/src/icons/a.png'')
       = [SpriteProcess, PackerRun [SrcPath ''/src/icons/a.png''],
          WriteManifest (manifest_metadata posix_path (coordinates scenario1_result)),
          WriteSprite (image scenario1_result)]"
proof -
  have h: "pathEqual relative_resolved ''/out/sprite.png'' (spriteImagePath watch_plugin1)"
    by (simp add: pathEqual_def relative_resolved_def watch_plugin1_def)
  have t: "trace (on_all posix_path (\<lambda>srcs. Inr scenario1_result) relative_resolved watch_plugin1
        (Some [(''/src/icons/'', [''/src/icons/a.png''])]) [] ''changed'' ''/src/icons/a.png'')
       = [SpriteProcess, PackerRun [SrcPath ''/src/icons/a.png''],
          WriteManifest (manifest_metadata posix_path (coordinates scenario1_result)),
          WriteSprite (image scenario1_result)]"
    by (simp add: on_all_def spriteProcess_def generateSpriteSheet_def pathEqual_def
        relative_resolved_def watch_plugin1_def eval_filter)
  show ?thesis
    using own_outputs_never_repack [where event = "''changed''" and relative = relative_resolved
        and filePath = "''/out/sprite.png''" and self = watch_plugin1 and pm = posix_path
        and packer = "\<lambda>srcs. Inr scenario1_result"
        and watcher = "Some [(''/src/icons/'', [''/src/icons/a.png''])]" and completions = "[]"] h t
    by simp
qed

end
